theory Spec2Isabelle
  imports Complex_Main
begin

section \<open>Planner injector: the affinity cache, the fetcher, the enrichment step and the
  prompt interceptor of \<^verbatim>\<open>plugin.py\<close>\<close>

text \<open>
  Conventions of the embedding.
  \<^item> A Python \<^verbatim>\<open>str\<close> is a \<^typ>\<open>string\<close> holding its UTF-8 encoding; concatenation and
    \<^verbatim>\<open>rstrip('/')\<close> commute with that encoding. The Chinese literals of the source are
    written out byte by byte.
  \<^item> \<^verbatim>\<open>time.time()\<close> is an input of every operation that reads the clock, a \<^typ>\<open>real\<close>
    (the rounding of Python's floats is not modelled).
  \<^item> The lock of the cache manager makes each \<^verbatim>\<open>get\<close> and \<^verbatim>\<open>set\<close> atomic: each is one
    step of the model.
  \<^item> The message handler is a coroutine that suspends at \<^verbatim>\<open>await self.post_api(userId)\<close>,
    between its \<^verbatim>\<open>get\<close> and its \<^verbatim>\<open>set\<close>. \<^verbatim>\<open>execute\<close> is one invocation that nothing
    interrupts; the two halves around the \<^verbatim>\<open>await\<close> are given separately, with a scheduler
    that interleaves several invocations.
  \<^item> Logging has no effect on any value and is left out.
\<close>

subsection \<open>Python values that reach the plugin\<close>

text \<open>
  Neither the JSON body of the remote service nor the host's message dictionary is typed,
  so the values stored as impression and attitude are arbitrary Python objects. The code
  only stores them and formats them with \<^verbatim>\<open>str\<close>; an object that is not \<^verbatim>\<open>None\<close>, a
  \<^verbatim>\<open>bool\<close>, an \<^verbatim>\<open>int\<close> or a \<^verbatim>\<open>str\<close> (a float, a list, a dict) is therefore carried as the
  text \<^verbatim>\<open>str\<close> gives for it.
\<close>

datatype pyval = PyNone | PyBool bool | PyInt int | PyStr string | PyOther string

datatype exn =
    TimeoutException | RequestError | HTTPStatusError | JSONDecodeError
  | AttributeError | TypeError | RecursionError | HostError string

function dec :: "nat \<Rightarrow> string" where
  "dec n = (if n < 10 then [char_of (48 + n)] else dec (n div 10) @ [char_of (48 + n mod 10)])"
  by pat_completeness auto
termination
  by (relation "measure (\<lambda>n. n)") auto

declare dec.simps [simp del]

text \<open>\<^verbatim>\<open>str(v)\<close>, which is also what an f-string field \<^verbatim>\<open>{v}\<close> renders.\<close>

fun py_str :: "pyval \<Rightarrow> string" where
  "py_str PyNone = ''None''"
| "py_str (PyBool b) = (if b then ''True'' else ''False'')"
| "py_str (PyInt i) = (if i < 0 then CHR ''-'' # dec (nat (- i)) else dec (nat i))"
| "py_str (PyStr s) = s"
| "py_str (PyOther s) = s"

text \<open>\<^verbatim>\<open>d.get(k, default)\<close> on a dict given by its items.\<close>

definition dict_get :: "(string \<times> pyval) list \<Rightarrow> string \<Rightarrow> pyval \<Rightarrow> pyval" where
  "dict_get d k dflt = (case map_of d k of None \<Rightarrow> dflt | Some v \<Rightarrow> v)"

subsection \<open>The cache manager\<close>

record UserInfo =
  userid :: string
  impression :: pyval
  attitude :: pyval

record UserInfoCacheEntry =
  user_info :: UserInfo
  stamp :: real

record UserInfoCacheManager =
  cache :: "string \<rightharpoonup> UserInfoCacheEntry"
  ttl :: int

text \<open>\<^verbatim>\<open>UserInfoCacheManager(ttl)\<close>: an empty cache.\<close>

definition new_manager :: "int \<Rightarrow> UserInfoCacheManager" where
  "new_manager t = \<lparr>cache = Map.empty, ttl = t\<rparr>"

text \<open>
  \<^verbatim>\<open>UserInfoCacheManager.get\<close> at clock reading \<open>now\<close>: the result and the manager
  afterwards. A stored entry is a two-key dict and so never falsy: \<^verbatim>\<open>not cache_entry\<close>
  holds exactly when the key is missing.
\<close>

definition cache_get ::
  "real \<Rightarrow> string \<Rightarrow> UserInfoCacheManager \<Rightarrow> UserInfo option \<times> UserInfoCacheManager" where
  "cache_get now uid m =
     (case cache m uid of
        None \<Rightarrow> (None, m)
      | Some cache_entry \<Rightarrow>
          if now - stamp cache_entry > real_of_int (ttl m)
          then (None, m\<lparr>cache := (cache m)(uid := None)\<rparr>)
          else (Some (user_info cache_entry), m))"

text \<open>\<^verbatim>\<open>UserInfoCacheManager.set\<close> at clock reading \<open>now\<close>.\<close>

definition cache_set ::
  "real \<Rightarrow> string \<Rightarrow> pyval \<Rightarrow> pyval \<Rightarrow> UserInfoCacheManager \<Rightarrow> UserInfoCacheManager" where
  "cache_set now uid imp att m =
     m\<lparr>cache := (cache m)(uid \<mapsto>
        \<lparr>user_info = \<lparr>userid = uid, impression = imp, attitude = att\<rparr>, stamp = now\<rparr>)\<rparr>"

text \<open>Every entry is filed under the user id its record carries.\<close>

definition keyed :: "UserInfoCacheManager \<Rightarrow> bool" where
  "keyed m = (\<forall>u e. cache m u = Some e \<longrightarrow> userid (user_info e) = u)"

subsection \<open>The fetcher\<close>

text \<open>The two configuration values \<^verbatim>\<open>post_api\<close> reads, \<^verbatim>\<open>api.url\<close> and \<^verbatim>\<open>api.timeout\<close>.\<close>

record config =
  api_url :: string
  api_timeout :: int

text \<open>
  What \<^verbatim>\<open>httpx\<close> does with the one request is an input: the request times out, fails in
  transport, or is answered with a status code and a body. The body is \<open>None\<close> when
  \<^verbatim>\<open>response.json()\<close> cannot decode it, a dict, or some other JSON value (a list, a
  string, a number, \<^verbatim>\<open>null\<close>), which has no \<^verbatim>\<open>get\<close> method.
\<close>

datatype json_body = JsonDict "(string \<times> pyval) list" | JsonOther

datatype post_result = PostTimeout | PostRequestError | PostResponse nat "json_body option"

definition rstrip_slash :: "string \<Rightarrow> string" where
  "rstrip_slash s = rev (dropWhile (\<lambda>c. c = CHR ''/'') (rev s))"

definition request_url :: "config \<Rightarrow> string \<Rightarrow> string" where
  "request_url cfg uid = rstrip_slash (api_url cfg) @ ''/get_info/'' @ uid"

text \<open>The attitude label of the source's fallback, U+4E00 U+822C.\<close>

definition default_attitude :: string where
  "default_attitude = [CHR 0xE4, CHR 0xB8, CHR 0x80, CHR 0xE8, CHR 0x88, CHR 0xAC]"


text \<open>
  The body of the \<^verbatim>\<open>try\<close>: \<^verbatim>\<open>client.post\<close>, \<^verbatim>\<open>raise_for_status\<close> (which raises unless the
  status is 2xx), \<^verbatim>\<open>response.json()\<close> and the two \<^verbatim>\<open>data.get\<close>.
\<close>

definition post_api_try :: "post_result \<Rightarrow> exn + pyval \<times> pyval" where
  "post_api_try r =
     (case r of
        PostTimeout \<Rightarrow> Inl TimeoutException
      | PostRequestError \<Rightarrow> Inl RequestError
      | PostResponse status body \<Rightarrow>
          if \<not> (200 \<le> status \<and> status \<le> 299) then Inl HTTPStatusError
          else (case body of
                  None \<Rightarrow> Inl JSONDecodeError
                | Some JsonOther \<Rightarrow> Inl AttributeError
                | Some (JsonDict data) \<Rightarrow>
                    Inr (dict_get data ''impression'' (PyInt 0),
                         dict_get data ''attitude'' (PyStr default_attitude))))"

text \<open>
  \<^verbatim>\<open>UserInfoGet.post_api\<close>: the \<^verbatim>\<open>try\<close> with its three handlers in the source's order,
  the last one catching every other \<^verbatim>\<open>Exception\<close>. The log of requests (URL and timeout)
  is threaded through, so that network calls can be counted.
\<close>

definition post_api ::
  "config \<Rightarrow> post_result \<Rightarrow> string \<Rightarrow> (string \<times> int) list \<Rightarrow>
     (exn + pyval \<times> pyval) \<times> (string \<times> int) list" where
  "post_api cfg r uid sent =
     (let url = request_url cfg uid; timeout = api_timeout cfg in
      (case post_api_try r of
         Inr v \<Rightarrow> Inr v
       | Inl TimeoutException \<Rightarrow> Inr (PyInt 0, PyStr default_attitude)
       | Inl RequestError \<Rightarrow> Inr (PyInt 0, PyStr default_attitude)
       | Inl HTTPStatusError \<Rightarrow> Inr (PyInt 0, PyStr default_attitude)
       | Inl _ \<Rightarrow> Inr (PyInt 0, PyStr default_attitude),
       sent @ [(url, timeout)]))"

subsection \<open>The enrichment step\<close>

text \<open>
  The module's globals: \<^verbatim>\<open>is_enabled\<close> (\<^verbatim>\<open>None\<close> until the plugin object is built), the
  cache manager, and the log of the requests sent so far.
\<close>

record plugin_state =
  is_enabled :: "bool option"
  user_cache_manager :: UserInfoCacheManager
  posts :: "(string \<times> int) list"

definition module_state0 :: plugin_state where
  "module_state0 = \<lparr>is_enabled = None, user_cache_manager = new_manager 3600, posts = []\<rparr>"

record MaiMessages =
  message_base_info :: "(string \<times> pyval) list"

text \<open>
  What one invocation of the handler meets: the clock at its \<^verbatim>\<open>get\<close>, the clock at its
  \<^verbatim>\<open>set\<close>, and what the network does with a request, should one be sent.
\<close>

record moment =
  clock_get :: real
  clock_set :: real
  reply :: post_result

text \<open>
  The handler's return tuple. The host reads the first component as "executed
  successfully" and the second as "continue processing"; the three others are always
  \<^verbatim>\<open>None\<close> here.
\<close>

type_synonym handler_result = "bool \<times> bool \<times> string option \<times> unit option \<times> unit option"

text \<open>\<^verbatim>\<open>UserInfoGet.execute\<close>.\<close>

definition execute ::
  "config \<Rightarrow> moment \<Rightarrow> MaiMessages option \<Rightarrow> plugin_state \<Rightarrow>
     (exn + handler_result) \<times> plugin_state" where
  "execute cfg env message s =
     (if is_enabled s \<noteq> Some True then (Inr (False, True, None, None, None), s)
      else (case message of
              None \<Rightarrow> (Inl AttributeError, s)
            | Some msg \<Rightarrow>
                (let userId = py_str (dict_get (message_base_info msg) ''user_id'' PyNone) in
                 (case cache_get (clock_get env) userId (user_cache_manager s) of
                    (Some hit, m1) \<Rightarrow>
                      (Inr (True, True, None, None, None), s\<lparr>user_cache_manager := m1\<rparr>)
                  | (None, m1) \<Rightarrow>
                      (case post_api cfg (reply env) userId (posts s) of
                         (Inl e, sent) \<Rightarrow> (Inl e, s\<lparr>user_cache_manager := m1, posts := sent\<rparr>)
                       | (Inr (imp, att), sent) \<Rightarrow>
                           (Inr (True, True, None, None, None),
                            s\<lparr>user_cache_manager := cache_set (clock_set env) userId imp att m1,
                              posts := sent\<rparr>))))))"

text \<open>The user id \<^verbatim>\<open>execute\<close> derives from a message: \<^verbatim>\<open>str(base_info.get("user_id"))\<close>.\<close>

definition userId_of :: "MaiMessages \<Rightarrow> string" where
  "userId_of msg = py_str (dict_get (message_base_info msg) ''user_id'' PyNone)"

text \<open>
  Whether an outcome of the handler tells the host that it succeeded: it returned, and the
  first component of the tuple is \<^verbatim>\<open>True\<close>. (The module's command handler follows the same
  convention: it answers \<^verbatim>\<open>False\<close> first when the feature is switched off.)
\<close>

definition reports_success :: "exn + handler_result \<Rightarrow> bool" where
  "reports_success r = (case r of Inl e \<Rightarrow> False | Inr (success, rest) \<Rightarrow> success)"

text \<open>
  The handler at its suspension point. The first half runs up to
  \<^verbatim>\<open>await self.post_api(userId)\<close>: it either returns (feature off, no message, cache hit) or
  is left waiting for the fetch with the user id it computed. The second half is what runs
  from the \<^verbatim>\<open>await\<close> on: the request, then \<^verbatim>\<open>set\<close> on the module's cache manager as it is
  by then, then the return.
\<close>

datatype suspension = Returned "exn + handler_result" | AwaitingFetch string

definition execute_until_await ::
  "moment \<Rightarrow> MaiMessages option \<Rightarrow> plugin_state \<Rightarrow> suspension \<times> plugin_state" where
  "execute_until_await env message s =
     (if is_enabled s \<noteq> Some True then (Returned (Inr (False, True, None, None, None)), s)
      else (case message of
              None \<Rightarrow> (Returned (Inl AttributeError), s)
            | Some msg \<Rightarrow>
                (let userId = py_str (dict_get (message_base_info msg) ''user_id'' PyNone) in
                 (case cache_get (clock_get env) userId (user_cache_manager s) of
                    (Some hit, m1) \<Rightarrow>
                      (Returned (Inr (True, True, None, None, None)), s\<lparr>user_cache_manager := m1\<rparr>)
                  | (None, m1) \<Rightarrow> (AwaitingFetch userId, s\<lparr>user_cache_manager := m1\<rparr>)))))"

definition execute_after_await ::
  "config \<Rightarrow> moment \<Rightarrow> string \<Rightarrow> plugin_state \<Rightarrow> (exn + handler_result) \<times> plugin_state" where
  "execute_after_await cfg env userId s =
     (case post_api cfg (reply env) userId (posts s) of
        (Inl e, sent) \<Rightarrow> (Inl e, s\<lparr>posts := sent\<rparr>)
      | (Inr (imp, att), sent) \<Rightarrow>
          (Inr (True, True, None, None, None),
           s\<lparr>user_cache_manager :=
                cache_set (clock_set env) userId imp att (user_cache_manager s),
             posts := sent\<rparr>))"

text \<open>
  Several invocations in flight on the event loop. A task has not started yet, is
  suspended at the \<^verbatim>\<open>await\<close>, or has returned; a step runs one task up to its next
  suspension or its return; a schedule names, step by step, the task that runs.
\<close>

datatype task =
    Fresh moment "MaiMessages option"
  | Suspended moment string
  | Finished "exn + handler_result"

fun step_task :: "config \<Rightarrow> task \<Rightarrow> plugin_state \<Rightarrow> task \<times> plugin_state" where
  "step_task cfg (Fresh env message) s =
     (case execute_until_await env message s of
        (Returned r, s') \<Rightarrow> (Finished r, s')
      | (AwaitingFetch userId, s') \<Rightarrow> (Suspended env userId, s'))"
| "step_task cfg (Suspended env userId) s =
     (case execute_after_await cfg env userId s of (r, s') \<Rightarrow> (Finished r, s'))"
| "step_task cfg (Finished r) s = (Finished r, s)"

fun run_schedule ::
  "config \<Rightarrow> nat list \<Rightarrow> task list \<Rightarrow> plugin_state \<Rightarrow> task list \<times> plugin_state" where
  "run_schedule cfg [] tasks s = (tasks, s)"
| "run_schedule cfg (i # schedule) tasks s =
     (if i < length tasks
      then (case step_task cfg (tasks ! i) s of
              (t, s') \<Rightarrow> run_schedule cfg schedule (tasks[i := t]) s')
      else run_schedule cfg schedule tasks s)"

text \<open>
  The handler run on a sequence of messages strictly one after the other: each invocation
  returns before the next one starts, so none runs while another is suspended.
\<close>

fun execute_all ::
  "config \<Rightarrow> (moment \<times> MaiMessages option) list \<Rightarrow> plugin_state \<Rightarrow> plugin_state" where
  "execute_all cfg [] s = s"
| "execute_all cfg ((env, message) # rest) s = execute_all cfg rest (snd (execute cfg env message s))"

subsection \<open>The prompt interceptor\<close>

record TargetPersonInfo =
  user_id :: string

text \<open>
  The arguments of \<^verbatim>\<open>build_planner_prompt\<close>: the target-user context, and everything else
  (\<^verbatim>\<open>self\<close>, the actions, the message ids, the content block, the interest, the prompt key),
  which the wrapper only hands on.
\<close>

record 'x planner_args =
  chat_target_info :: "TargetPersonInfo option"
  passed_on :: 'x

type_synonym ('x, 'm) planner =
  "'x planner_args \<Rightarrow> UserInfoCacheManager \<Rightarrow> (exn + string \<times> 'm) \<times> UserInfoCacheManager"

definition favorability_prefix :: string where
  "favorability_prefix =
     [CHR 0x0A, CHR 0xE4, CHR 0xBD, CHR 0xA0, CHR 0xE5, CHR 0xAF, CHR 0xB9, CHR 0xE5, CHR 0xBD,
      CHR 0x93, CHR 0xE5, CHR 0x89, CHR 0x8D, CHR 0xE7, CHR 0x94, CHR 0xA8, CHR 0xE6, CHR 0x88,
      CHR 0xB7, CHR 0xE7, CHR 0x9A, CHR 0x84, CHR 0xE5, CHR 0xA5, CHR 0xBD, CHR 0xE6, CHR 0x84,
      CHR 0x9F, CHR 0xE5, CHR 0xBA, CHR 0xA6, CHR 0xE6, CHR 0x98, CHR 0xAF]"

definition favorability_middle :: string where
  "favorability_middle =
     [CHR 0xEF, CHR 0xBC, CHR 0x8C, CHR 0xE6, CHR 0x80, CHR 0x81, CHR 0xE5, CHR 0xBA, CHR 0xA6,
      CHR 0xE6, CHR 0x98, CHR 0xAF]"

definition favorability_suffix :: string where
  "favorability_suffix =
     [CHR 0xEF, CHR 0xBC, CHR 0x8C, CHR 0xE5, CHR 0xA5, CHR 0xBD, CHR 0xE6, CHR 0x84, CHR 0x9F,
      CHR 0xE5, CHR 0xBA, CHR 0xA6, CHR 0xE8, CHR 0xB6, CHR 0x8A, CHR 0xE9, CHR 0xAB, CHR 0x98,
      CHR 0xEF, CHR 0xBC, CHR 0x8C, CHR 0xE9, CHR 0x80, CHR 0x89, CHR 0xE6, CHR 0x8B, CHR 0xA9,
      CHR 0x72, CHR 0x65, CHR 0x70, CHR 0x6C, CHR 0x79, CHR 0xE7, CHR 0x9A, CHR 0x84, CHR 0xE6,
      CHR 0xA6, CHR 0x82, CHR 0xE7, CHR 0x8E, CHR 0x87, CHR 0xE8, CHR 0xB6, CHR 0x8A, CHR 0xE5,
      CHR 0xA4, CHR 0xA7, CHR 0xE3, CHR 0x80, CHR 0x82, CHR 0xE5, CHR 0xA5, CHR 0xBD, CHR 0xE6,
      CHR 0x84, CHR 0x9F, CHR 0xE5, CHR 0xBA, CHR 0xA6, CHR 0x3E, CHR 0x35, CHR 0x30, CHR 0xE5,
      CHR 0x88, CHR 0x99, CHR 0xE6, CHR 0x9C, CHR 0x89, CHR 0x37, CHR 0x35, CHR 0x25, CHR 0xE7,
      CHR 0x9A, CHR 0x84, CHR 0xE6, CHR 0xA6, CHR 0x82, CHR 0xE7, CHR 0x8E, CHR 0x87, CHR 0x72,
      CHR 0x65, CHR 0x70, CHR 0x6C, CHR 0x79, CHR 0xE3, CHR 0x80, CHR 0x82]"

text \<open>The f-string of the wrapper: a newline, then the sentence with its two fields.\<close>

definition favorability_prompt :: "UserInfo \<Rightarrow> string" where
  "favorability_prompt ui =
     favorability_prefix @ py_str (impression ui) @ favorability_middle @
     py_str (attitude ui) @ favorability_suffix"

text \<open>
  \<^verbatim>\<open>_patch_planner\<close>, given what the global \<^verbatim>\<open>_original_func\<close> is bound to (calling \<^verbatim>\<open>None\<close>
  raises) and the clock at the cache lookup. An exception of the original propagates.
  The target's \<^verbatim>\<open>user_id\<close> is a \<^verbatim>\<open>str\<close>, on which \<^verbatim>\<open>str\<close> is the identity; a \<^verbatim>\<open>UserInfo\<close>
  object is never falsy.
\<close>

definition patch_planner ::
  "('x, 'm) planner option \<Rightarrow> real \<Rightarrow> ('x, 'm) planner" where
  "patch_planner original_func now args m =
     (case original_func of
        None \<Rightarrow> (Inl TypeError, m)
      | Some f \<Rightarrow>
          (case f args m of
             (Inl e, m1) \<Rightarrow> (Inl e, m1)
           | (Inr (prompt, message_id_list_result), m1) \<Rightarrow>
               (case chat_target_info args of
                  None \<Rightarrow> (Inl AttributeError, m1)
                | Some target \<Rightarrow>
                    (case cache_get now (user_id target) m1 of
                       (None, m2) \<Rightarrow> (Inr (prompt, message_id_list_result), m2)
                     | (Some ui, m2) \<Rightarrow>
                         (Inr (prompt @ favorability_prompt ui, message_id_list_result), m2)))))"

text \<open>
  The two functions that can be bound at the hook point, and the two bindings
  \<^verbatim>\<open>patch\<close> touches: the class attribute \<^verbatim>\<open>BrainPlanner.build_planner_prompt\<close> (\<open>None\<close> when
  the class has no such attribute) and the global \<^verbatim>\<open>_original_func\<close>.
\<close>

datatype callable = HostPlanner | PatchPlanner

record hooks =
  build_planner_prompt :: "callable option"
  original_func :: "callable option"

text \<open>The process at start: the host's own function at the hook, nothing captured.\<close>

definition hooks0 :: hooks where
  "hooks0 = \<lparr>build_planner_prompt = Some HostPlanner, original_func = None\<rparr>"

text \<open>
  \<^verbatim>\<open>patch\<close>: reading a missing attribute raises before anything is assigned, and the
  \<^verbatim>\<open>except\<close> swallows it.
\<close>

definition patch :: "hooks \<Rightarrow> hooks" where
  "patch h =
     (case build_planner_prompt h of
        None \<Rightarrow> h
      | Some f \<Rightarrow> h\<lparr>original_func := Some f, build_planner_prompt := Some PatchPlanner\<rparr>)"

text \<open>
  Calling a function value with \<open>depth\<close> frames left on the interpreter's stack: the
  host's planner runs as it is, the wrapper runs \<^verbatim>\<open>_patch_planner\<close> with the current
  binding of \<^verbatim>\<open>_original_func\<close>, and an exhausted stack raises \<^verbatim>\<open>RecursionError\<close>.
\<close>

fun call ::
  "nat \<Rightarrow> ('x, 'm) planner \<Rightarrow> hooks \<Rightarrow> callable \<Rightarrow> real \<Rightarrow> ('x, 'm) planner" where
  "call depth host h f now args m =
     (case f of
        HostPlanner \<Rightarrow> host args m
      | PatchPlanner \<Rightarrow>
          (case depth of
             0 \<Rightarrow> (Inl RecursionError, m)
           | Suc d \<Rightarrow>
               patch_planner
                 (case original_func h of
                    None \<Rightarrow> None
                  | Some g \<Rightarrow> Some (\<lambda>a m'. call d host h g now a m'))
                 now args m))"

declare call.simps [simp del]

text \<open>The host building a prompt: whatever is bound at the hook point is called.\<close>

definition build_prompt ::
  "nat \<Rightarrow> ('x, 'm) planner \<Rightarrow> hooks \<Rightarrow> real \<Rightarrow> ('x, 'm) planner" where
  "build_prompt depth host h now args m =
     (case build_planner_prompt h of
        None \<Rightarrow> (Inl AttributeError, m)
      | Some f \<Rightarrow> call depth host h f now args m)"

section \<open>Properties\<close>

subsection \<open>The cache manager\<close>

text \<open>
  Claim C5. \<^verbatim>\<open>set(u, i, a)\<close> files, whatever was there, the entry with record \<open>(u, i, a)\<close>
  and the clock reading as its stamp, and leaves the TTL alone; a \<^verbatim>\<open>get(u)\<close> no later than
  the TTL after that stamp returns exactly this record and changes nothing. A second \<^verbatim>\<open>set\<close>
  for the same user leaves the manager as if the first had never happened, so the last
  write is the one read back.
\<close>

theorem set_then_get:
  "cache (cache_set t u i a m) u =
     Some \<lparr>user_info = \<lparr>userid = u, impression = i, attitude = a\<rparr>, stamp = t\<rparr>
   \<and> ttl (cache_set t u i a m) = ttl m
   \<and> (now - t \<le> real_of_int (ttl m) \<longrightarrow>
        cache_get now u (cache_set t u i a m) =
          (Some \<lparr>userid = u, impression = i, attitude = a\<rparr>, cache_set t u i a m))
   \<and> cache_set t2 u i2 a2 (cache_set t u i a m) = cache_set t2 u i2 a2 m
   \<and> (now - t2 \<le> real_of_int (ttl m) \<longrightarrow>
        fst (cache_get now u (cache_set t2 u i2 a2 (cache_set t u i a m))) =
          Some \<lparr>userid = u, impression = i2, attitude = a2\<rparr>)"
  by (simp add: cache_get_def cache_set_def)

theorem set_then_get_witness:
  "(5::real) - 0 \<le> real_of_int (ttl (new_manager 3600))
   \<and> cache_get 5 ''u1'' (cache_set 0 ''u1'' (PyInt 80) (PyStr ''friendly'') (new_manager 3600)) =
       (Some \<lparr>userid = ''u1'', impression = PyInt 80, attitude = PyStr ''friendly''\<rparr>,
        cache_set 0 ''u1'' (PyInt 80) (PyStr ''friendly'') (new_manager 3600))
   \<and> (5::real) - 3 \<le> real_of_int (ttl (new_manager 3600))
   \<and> fst (cache_get 5 ''u1'' (cache_set 3 ''u1'' (PyInt 80) (PyStr ''friendly'')
             (cache_set 0 ''u1'' (PyInt 7) (PyStr ''cold'') (new_manager 3600)))) =
       Some \<lparr>userid = ''u1'', impression = PyInt 80, attitude = PyStr ''friendly''\<rparr>"
proof -
  have a: "(5::real) - 0 \<le> real_of_int (ttl (new_manager 3600))"
    by (simp add: new_manager_def)
  have b: "(5::real) - 3 \<le> real_of_int (ttl (new_manager 3600))"
    by (simp add: new_manager_def)
  show ?thesis
    using a b
      set_then_get [where t = 0 and u = "''u1''" and i = "PyInt 80"
        and a = "PyStr ''friendly''" and m = "new_manager 3600" and now = 5]
      set_then_get [where t = 0 and u = "''u1''" and i = "PyInt 7"
        and a = "PyStr ''cold''" and m = "new_manager 3600" and now = 5 and ?t2.0 = 3
        and ?i2.0 = "PyInt 80" and ?a2.0 = "PyStr ''friendly''"]
    by blast
qed

text \<open>
  Claim C6. \<^verbatim>\<open>get(u)\<close> returns the stored record while \<open>now - stamp \<le> ttl\<close> and changes
  nothing. Once \<open>now - stamp > ttl\<close> it returns nothing and removes the entry of \<open>u\<close> and
  no other; whatever the clock then reads, a second and a third \<^verbatim>\<open>get(u)\<close> return nothing
  too. For a user with no entry, and so on a new manager, \<^verbatim>\<open>get\<close> returns nothing.
\<close>

theorem get_expiry:
  "(cache m u = None \<longrightarrow> cache_get now u m = (None, m))
   \<and> cache_get now u (new_manager t) = (None, new_manager t)
   \<and> (cache m u = Some e \<and> now - stamp e \<le> real_of_int (ttl m) \<longrightarrow>
        cache_get now u m = (Some (user_info e), m))
   \<and> (cache m u = Some e \<and> now - stamp e > real_of_int (ttl m) \<longrightarrow>
        cache_get now u m = (None, m\<lparr>cache := (cache m)(u := None)\<rparr>)
        \<and> cache (snd (cache_get now u m)) u = None
        \<and> (\<forall>v. v \<noteq> u \<longrightarrow> cache (snd (cache_get now u m)) v = cache m v)
        \<and> cache_get now' u (snd (cache_get now u m)) = (None, snd (cache_get now u m))
        \<and> cache_get now'' u (snd (cache_get now' u (snd (cache_get now u m)))) =
            (None, snd (cache_get now u m)))"
  by (simp add: cache_get_def new_manager_def)

theorem get_expiry_witness:
  "cache (cache_set 0 ''u1'' (PyInt 80) (PyStr ''friendly'') (new_manager 3600)) ''u2'' = None
   \<and> cache_get 7 ''u2'' (cache_set 0 ''u1'' (PyInt 80) (PyStr ''friendly'') (new_manager 3600)) =
       (None, cache_set 0 ''u1'' (PyInt 80) (PyStr ''friendly'') (new_manager 3600))
   \<and> fst (cache_get 3600 ''u1''
        (cache_set 0 ''u1'' (PyInt 80) (PyStr ''friendly'') (new_manager 3600))) =
       Some \<lparr>userid = ''u1'', impression = PyInt 80, attitude = PyStr ''friendly''\<rparr>
   \<and> fst (cache_get 3601 ''u1''
        (cache_set 0 ''u1'' (PyInt 80) (PyStr ''friendly'') (new_manager 3600))) = None
   \<and> fst (cache_get 10 ''u1'' (snd (cache_get 3601 ''u1''
        (cache_set 0 ''u1'' (PyInt 80) (PyStr ''friendly'') (new_manager 3600))))) = None"
proof -
  let ?m = "cache_set 0 ''u1'' (PyInt 80) (PyStr ''friendly'') (new_manager 3600)"
  let ?e = "\<lparr>user_info = \<lparr>userid = ''u1'', impression = PyInt 80, attitude = PyStr ''friendly''\<rparr>,
             stamp = 0\<rparr>"
  have absent: "cache ?m ''u2'' = None"
    by (simp add: cache_set_def new_manager_def)
  have present: "cache ?m ''u1'' = Some ?e"
    by (simp add: cache_set_def)
  have fresh: "(3600::real) - stamp ?e \<le> real_of_int (ttl ?m)"
    by (simp add: cache_set_def new_manager_def)
  have stale: "(3601::real) - stamp ?e > real_of_int (ttl ?m)"
    by (simp add: cache_set_def new_manager_def)
  have info: "user_info ?e = \<lparr>userid = ''u1'', impression = PyInt 80, attitude = PyStr ''friendly''\<rparr>"
    by simp
  note a = get_expiry [where m = ?m and u = "''u2''" and now = 7 and e = ?e]
  note b = get_expiry [where m = ?m and u = "''u1''" and now = 3600 and e = ?e]
  note c = get_expiry [where m = ?m and u = "''u1''" and now = 3601 and e = ?e and now' = 10]
  have 1: "cache_get 7 ''u2'' ?m = (None, ?m)"
    using a absent by blast
  have 2: "cache_get 3600 ''u1'' ?m = (Some (user_info ?e), ?m)"
    using b present fresh by blast
  have 3: "cache_get 3601 ''u1'' ?m = (None, ?m\<lparr>cache := (cache ?m)(''u1'' := None)\<rparr>)"
    using c present stale by blast
  have 4: "cache_get 10 ''u1'' (snd (cache_get 3601 ''u1'' ?m)) = (None, snd (cache_get 3601 ''u1'' ?m))"
    using c present stale by blast
  show ?thesis
    using absent 1 2 3 4 info by simp
qed

text \<open>
  Claim C10. Every entry of a new manager is filed under the user id of its record, both
  \<^verbatim>\<open>set\<close> and \<^verbatim>\<open>get\<close> keep it so, and therefore the record \<^verbatim>\<open>get(u)\<close> returns carries the
  user id \<open>u\<close>.
\<close>

theorem keyed_preserved:
  "keyed (new_manager t)
   \<and> (keyed m \<longrightarrow>
        keyed (cache_set t' u i a m)
        \<and> keyed (snd (cache_get now u m))
        \<and> (\<forall>r. fst (cache_get now u m) = Some r \<longrightarrow> userid r = u))"
  by (auto simp: keyed_def new_manager_def cache_set_def cache_get_def
      split: option.splits if_splits)

theorem keyed_preserved_witness:
  "keyed (cache_set 0 ''u1'' (PyInt 80) (PyStr ''friendly'') (new_manager 3600))
   \<and> keyed (cache_set 1 ''u2'' (PyInt 3) (PyStr ''cold'')
        (cache_set 0 ''u1'' (PyInt 80) (PyStr ''friendly'') (new_manager 3600)))
   \<and> keyed (snd (cache_get 9999 ''u1''
        (cache_set 0 ''u1'' (PyInt 80) (PyStr ''friendly'') (new_manager 3600))))
   \<and> fst (cache_get 5 ''u1'' (cache_set 0 ''u1'' (PyInt 80) (PyStr ''friendly'') (new_manager 3600))) =
       Some \<lparr>userid = ''u1'', impression = PyInt 80, attitude = PyStr ''friendly''\<rparr>
   \<and> userid \<lparr>userid = ''u1'', impression = PyInt 80, attitude = PyStr ''friendly''\<rparr> = ''u1''"
proof -
  let ?m = "cache_set 0 ''u1'' (PyInt 80) (PyStr ''friendly'') (new_manager 3600)"
  have k0: "keyed (new_manager 3600)"
    using keyed_preserved [of 3600] by blast
  have k: "keyed ?m"
    using k0 keyed_preserved [where m = "new_manager 3600" and t' = 0 and u = "''u1''"
      and i = "PyInt 80" and a = "PyStr ''friendly''"] by blast
  have g: "fst (cache_get 5 ''u1'' ?m) =
      Some \<lparr>userid = ''u1'', impression = PyInt 80, attitude = PyStr ''friendly''\<rparr>"
    by (simp add: cache_get_def cache_set_def new_manager_def)
  show ?thesis
    using k g keyed_preserved [where m = ?m and t' = 1 and u = "''u2''" and i = "PyInt 3"
        and a = "PyStr ''cold''"]
      keyed_preserved [where m = ?m and u = "''u1''" and now = 9999]
      keyed_preserved [where m = ?m and u = "''u1''" and now = 5]
    by blast
qed

subsection \<open>The fetcher\<close>



subsection \<open>The enrichment step\<close>

lemma post_api_returns:
  "\<exists>imp att. post_api cfg r uid sent = (Inr (imp, att), sent @ [(request_url cfg uid, api_timeout cfg)])"
  by (auto simp: post_api_def post_api_try_def Let_def
      split: post_result.splits option.splits json_body.splits sum.splits exn.splits)

lemma execute_split:
  "execute cfg env message s =
     (case execute_until_await env message s of
        (Returned r, s') \<Rightarrow> (r, s')
      | (AwaitingFetch userId, s') \<Rightarrow> execute_after_await cfg env userId s')"
  by (auto simp: execute_def execute_until_await_def execute_after_await_def Let_def
      split: option.splits prod.splits sum.splits)

lemma execute_hit:
  assumes "is_enabled s = Some True"
    and "cache (user_cache_manager s) (userId_of msg) = Some e"
    and "clock_get env - stamp e \<le> real_of_int (ttl (user_cache_manager s))"
  shows "execute cfg env (Some msg) s = (Inr (True, True, None, None, None), s)"
  using assms by (simp add: execute_def userId_of_def cache_get_def)

lemma execute_miss:
  assumes "is_enabled s = Some True"
    and "fst (cache_get (clock_get env) (userId_of msg) (user_cache_manager s)) = None"
  shows "\<exists>imp att.
      fst (post_api cfg (reply env) (userId_of msg) (posts s)) = Inr (imp, att)
      \<and> execute cfg env (Some msg) s =
          (Inr (True, True, None, None, None),
           s\<lparr>user_cache_manager :=
                cache_set (clock_set env) (userId_of msg) imp att
                  (snd (cache_get (clock_get env) (userId_of msg) (user_cache_manager s))),
              posts := posts s @ [(request_url cfg (userId_of msg), api_timeout cfg)]\<rparr>)"
proof -
  obtain imp att where p: "post_api cfg (reply env) (userId_of msg) (posts s) =
      (Inr (imp, att), posts s @ [(request_url cfg (userId_of msg), api_timeout cfg)])"
    using post_api_returns by blast
  obtain m1 where g: "cache_get (clock_get env) (userId_of msg) (user_cache_manager s) = (None, m1)"
    using assms(2) by (cases "cache_get (clock_get env) (userId_of msg) (user_cache_manager s)") simp
  have "execute cfg env (Some msg) s =
      (Inr (True, True, None, None, None),
       s\<lparr>user_cache_manager := cache_set (clock_set env) (userId_of msg) imp att m1,
         posts := posts s @ [(request_url cfg (userId_of msg), api_timeout cfg)]\<rparr>)"
    using assms(1) p g by (simp add: execute_def userId_of_def [symmetric] Let_def)
  then show ?thesis
    using p g by auto
qed

lemma execute_all_hits:
  assumes "is_enabled s = Some True"
    and "cache (user_cache_manager s) u = Some e"
    and "\<forall>x \<in> set rest. \<exists>msg. snd x = Some msg \<and> userId_of msg = u
           \<and> clock_get (fst x) - stamp e \<le> real_of_int (ttl (user_cache_manager s))"
  shows "execute_all cfg rest s = s"
  using assms(3)
proof (induction rest)
  case Nil
  show ?case by simp
next
  case (Cons x rest)
  obtain env message where x: "x = (env, message)"
    by (cases x)
  from Cons.prems x obtain msg where msg: "message = Some msg" "userId_of msg = u"
      "clock_get env - stamp e \<le> real_of_int (ttl (user_cache_manager s))"
    by auto
  have "execute cfg env (Some msg) s = (Inr (True, True, None, None, None), s)"
    using execute_hit [of s msg e env cfg] assms(1,2) msg by simp
  then show ?case
    using Cons x msg by simp
qed

lemma execute_leaves_entry:
  assumes "is_enabled s = Some True"
  shows "is_enabled (snd (execute cfg env (Some msg) s)) = Some True
       \<and> ttl (user_cache_manager (snd (execute cfg env (Some msg) s))) = ttl (user_cache_manager s)
       \<and> (\<exists>e. cache (user_cache_manager (snd (execute cfg env (Some msg) s))) (userId_of msg) = Some e)
       \<and> length (posts (snd (execute cfg env (Some msg) s))) \<le> length (posts s) + 1"
proof (cases "fst (cache_get (clock_get env) (userId_of msg) (user_cache_manager s))")
  case None
  from execute_miss [OF assms None, of cfg] obtain imp att where
    "execute cfg env (Some msg) s =
          (Inr (True, True, None, None, None),
           s\<lparr>user_cache_manager :=
                cache_set (clock_set env) (userId_of msg) imp att
                  (snd (cache_get (clock_get env) (userId_of msg) (user_cache_manager s))),
              posts := posts s @ [(request_url cfg (userId_of msg), api_timeout cfg)]\<rparr>)"
    by blast
  then show ?thesis
    using assms by (auto simp: cache_set_def cache_get_def split: option.splits if_splits)
next
  case (Some hit)
  then obtain e where e: "cache (user_cache_manager s) (userId_of msg) = Some e"
      "clock_get env - stamp e \<le> real_of_int (ttl (user_cache_manager s))"
    by (auto simp: cache_get_def split: option.splits if_splits)
  from execute_hit [OF assms e, of cfg] show ?thesis
    using assms e by simp
qed

text \<open>
  Claim C4, as the code has it. An invocation that nothing interrupts is the first half of
  the handler followed at once by the second. Such an enabled invocation, for a message
  whose user has a live entry, returns at once and leaves the whole state, the log of
  requests included, as it was: no request is sent. When \<^verbatim>\<open>get\<close> finds nothing,
  \<^verbatim>\<open>post_api\<close> is called, exactly one request is added to the log, and the pair it returns
  is stored with \<^verbatim>\<open>set\<close> before the handler returns. Either way the user has an entry
  afterwards; further invocations for the same user that run one after the other, each with
  its clock within the TTL of that entry's stamp, change nothing, so that such a sequence
  sends at most one request.
\<close>

theorem execute_hit_or_fetch:
  assumes "is_enabled s = Some True"
  shows "execute cfg env (Some msg) s =
            (case execute_until_await env (Some msg) s of
               (Returned r, s') \<Rightarrow> (r, s')
             | (AwaitingFetch userId, s') \<Rightarrow> execute_after_await cfg env userId s')
       \<and> (\<forall>hit. fst (cache_get (clock_get env) (userId_of msg) (user_cache_manager s)) = Some hit \<longrightarrow>
            execute cfg env (Some msg) s = (Inr (True, True, None, None, None), s))
       \<and> (fst (cache_get (clock_get env) (userId_of msg) (user_cache_manager s)) = None \<longrightarrow>
            (\<exists>imp att.
               fst (post_api cfg (reply env) (userId_of msg) (posts s)) = Inr (imp, att)
               \<and> execute cfg env (Some msg) s =
                   (Inr (True, True, None, None, None),
                    s\<lparr>user_cache_manager :=
                         cache_set (clock_set env) (userId_of msg) imp att
                           (snd (cache_get (clock_get env) (userId_of msg) (user_cache_manager s))),
                       posts := posts s @ [(request_url cfg (userId_of msg), api_timeout cfg)]\<rparr>)))
       \<and> (\<exists>e. cache (user_cache_manager (snd (execute cfg env (Some msg) s))) (userId_of msg) = Some e)
       \<and> (cache (user_cache_manager (snd (execute cfg env (Some msg) s))) (userId_of msg) = Some e
          \<and> (\<forall>x \<in> set rest. \<exists>msg'. snd x = Some msg' \<and> userId_of msg' = userId_of msg
                \<and> clock_get (fst x) - stamp e \<le> real_of_int (ttl (user_cache_manager s)))
          \<longrightarrow> execute_all cfg rest (snd (execute cfg env (Some msg) s)) =
                 snd (execute cfg env (Some msg) s)
              \<and> length (posts (execute_all cfg ((env, Some msg) # rest) s)) \<le> length (posts s) + 1)"
proof -
  let ?s1 = "snd (execute cfg env (Some msg) s)"
  note after = execute_leaves_entry [OF assms, of cfg env msg]
  have hit: "\<forall>hit. fst (cache_get (clock_get env) (userId_of msg) (user_cache_manager s)) = Some hit \<longrightarrow>
      execute cfg env (Some msg) s = (Inr (True, True, None, None, None), s)"
  proof (intro allI impI)
    fix hit
    assume "fst (cache_get (clock_get env) (userId_of msg) (user_cache_manager s)) = Some hit"
    then obtain e0 where "cache (user_cache_manager s) (userId_of msg) = Some e0"
        "clock_get env - stamp e0 \<le> real_of_int (ttl (user_cache_manager s))"
      by (auto simp: cache_get_def split: option.splits if_splits)
    then show "execute cfg env (Some msg) s = (Inr (True, True, None, None, None), s)"
      using execute_hit [OF assms] by blast
  qed
  have later: "execute_all cfg rest ?s1 = ?s1
      \<and> length (posts (execute_all cfg ((env, Some msg) # rest) s)) \<le> length (posts s) + 1"
    if e: "cache (user_cache_manager ?s1) (userId_of msg) = Some e"
      and r: "\<forall>x \<in> set rest. \<exists>msg'. snd x = Some msg' \<and> userId_of msg' = userId_of msg
                \<and> clock_get (fst x) - stamp e \<le> real_of_int (ttl (user_cache_manager s))"
  proof -
    have "execute_all cfg rest ?s1 = ?s1"
      using execute_all_hits [of ?s1 "userId_of msg" e rest cfg] after e r by simp
    then show ?thesis
      using after by simp
  qed
  show ?thesis
    using execute_split [of cfg env "Some msg" s] hit execute_miss [OF assms, of env msg cfg]
      after later
    by blast
qed

theorem execute_hit_or_fetch_witness:
  "is_enabled (module_state0\<lparr>is_enabled := Some True\<rparr>) = Some True
   \<and> fst (cache_get 0 ''u1'' (user_cache_manager (module_state0\<lparr>is_enabled := Some True\<rparr>))) = None
   \<and> posts (snd (execute \<lparr>api_url = ''http://host/'', api_timeout = 10\<rparr>
        \<lparr>clock_get = 0, clock_set = 1, reply = PostResponse 200 (Some (JsonDict [(''impression'', PyInt 80), (''attitude'', PyStr ''friendly'')]))\<rparr>
        (Some \<lparr>message_base_info = [(''user_id'', PyStr ''u1'')]\<rparr>) (module_state0\<lparr>is_enabled := Some True\<rparr>))) =
      [(''http://host/get_info/u1'', 10)]
   \<and> cache (user_cache_manager (snd (execute \<lparr>api_url = ''http://host/'', api_timeout = 10\<rparr>
        \<lparr>clock_get = 0, clock_set = 1, reply = PostResponse 200 (Some (JsonDict [(''impression'', PyInt 80), (''attitude'', PyStr ''friendly'')]))\<rparr>
        (Some \<lparr>message_base_info = [(''user_id'', PyStr ''u1'')]\<rparr>) (module_state0\<lparr>is_enabled := Some True\<rparr>)))) ''u1'' =
      Some \<lparr>user_info = \<lparr>userid = ''u1'', impression = PyInt 80, attitude = PyStr ''friendly''\<rparr>, stamp = 1\<rparr>
   \<and> posts (execute_all \<lparr>api_url = ''http://host/'', api_timeout = 10\<rparr>
        [(\<lparr>clock_get = 5, clock_set = 6, reply = PostTimeout\<rparr>, Some \<lparr>message_base_info = [(''user_id'', PyStr ''u1'')]\<rparr>), (\<lparr>clock_get = 3601, clock_set = 3602, reply = PostRequestError\<rparr>, Some \<lparr>message_base_info = [(''user_id'', PyStr ''u1'')]\<rparr>)]
        (snd (execute \<lparr>api_url = ''http://host/'', api_timeout = 10\<rparr>
          \<lparr>clock_get = 0, clock_set = 1, reply = PostResponse 200 (Some (JsonDict [(''impression'', PyInt 80), (''attitude'', PyStr ''friendly'')]))\<rparr>
          (Some \<lparr>message_base_info = [(''user_id'', PyStr ''u1'')]\<rparr>) (module_state0\<lparr>is_enabled := Some True\<rparr>)))) =
      [(''http://host/get_info/u1'', 10)]
   \<and> length (posts (execute_all \<lparr>api_url = ''http://host/'', api_timeout = 10\<rparr>
        ((\<lparr>clock_get = 0, clock_set = 1, reply = PostResponse 200 (Some (JsonDict [(''impression'', PyInt 80), (''attitude'', PyStr ''friendly'')]))\<rparr>, Some \<lparr>message_base_info = [(''user_id'', PyStr ''u1'')]\<rparr>) #
         [(\<lparr>clock_get = 5, clock_set = 6, reply = PostTimeout\<rparr>, Some \<lparr>message_base_info = [(''user_id'', PyStr ''u1'')]\<rparr>), (\<lparr>clock_get = 3601, clock_set = 3602, reply = PostRequestError\<rparr>, Some \<lparr>message_base_info = [(''user_id'', PyStr ''u1'')]\<rparr>)])
        (module_state0\<lparr>is_enabled := Some True\<rparr>))) \<le> length (posts (module_state0\<lparr>is_enabled := Some True\<rparr>)) + 1"
proof -
  let ?cfg = "\<lparr>api_url = ''http://host/'', api_timeout = 10\<rparr>"
  let ?s = "(module_state0\<lparr>is_enabled := Some True\<rparr>)"
  let ?msg = "\<lparr>message_base_info = [(''user_id'', PyStr ''u1'')]\<rparr>"
  let ?env = "\<lparr>clock_get = 0, clock_set = 1, reply = PostResponse 200 (Some (JsonDict [(''impression'', PyInt 80), (''attitude'', PyStr ''friendly'')]))\<rparr>"
  let ?rest = "[(\<lparr>clock_get = 5, clock_set = 6, reply = PostTimeout\<rparr>, Some \<lparr>message_base_info = [(''user_id'', PyStr ''u1'')]\<rparr>), (\<lparr>clock_get = 3601, clock_set = 3602, reply = PostRequestError\<rparr>, Some \<lparr>message_base_info = [(''user_id'', PyStr ''u1'')]\<rparr>)]"
  let ?e = "\<lparr>user_info = \<lparr>userid = ''u1'', impression = PyInt 80, attitude = PyStr ''friendly''\<rparr>, stamp = 1\<rparr>"
  let ?s1 = "snd (execute ?cfg ?env (Some ?msg) ?s)"
  have uid: "userId_of ?msg = ''u1''"
    by (simp add: userId_of_def dict_get_def)
  have on: "is_enabled ?s = Some True"
    by simp
  have miss: "fst (cache_get (clock_get ?env) (userId_of ?msg) (user_cache_manager ?s)) = None"
    by (simp add: uid cache_get_def module_state0_def new_manager_def)
  have url: "request_url ?cfg ''u1'' = ''http://host/get_info/u1''"
    by (simp add: request_url_def rstrip_slash_def)
  have fetched: "fst (post_api ?cfg (reply ?env) (userId_of ?msg) (posts ?s)) =
      Inr (PyInt 80, PyStr ''friendly'')"
    by (simp add: post_api_def post_api_try_def dict_get_def)
  note T = execute_hit_or_fetch [OF on, where cfg = ?cfg and env = ?env and msg = ?msg
      and rest = ?rest and e = ?e]
  from T miss fetched have s1: "execute ?cfg ?env (Some ?msg) ?s =
      (Inr (True, True, None, None, None),
       ?s\<lparr>user_cache_manager :=
             cache_set (clock_set ?env) (userId_of ?msg) (PyInt 80) (PyStr ''friendly'')
               (snd (cache_get (clock_get ?env) (userId_of ?msg) (user_cache_manager ?s))),
           posts := posts ?s @ [(request_url ?cfg (userId_of ?msg), api_timeout ?cfg)]\<rparr>)"
    by auto
  have none_yet: "posts ?s = []"
    by (simp add: module_state0_def)
  have sent: "posts ?s1 = [(''http://host/get_info/u1'', 10)]"
    by (simp add: s1 uid url none_yet)
  have entry: "cache (user_cache_manager ?s1) (userId_of ?msg) = Some ?e"
    by (simp add: s1 uid cache_set_def)
  have window: "\<forall>x \<in> set ?rest. \<exists>msg'. snd x = Some msg' \<and> userId_of msg' = userId_of ?msg
      \<and> clock_get (fst x) - stamp ?e \<le> real_of_int (ttl (user_cache_manager ?s))"
    by (simp add: uid userId_of_def dict_get_def module_state0_def new_manager_def)
  from T entry window have quiet: "execute_all ?cfg ?rest ?s1 = ?s1"
    and total: "length (posts (execute_all ?cfg ((?env, Some ?msg) # ?rest) ?s)) \<le> length (posts ?s) + 1"
    by blast+
  have miss': "fst (cache_get 0 ''u1'' (user_cache_manager ?s)) = None"
    using miss uid by simp
  have entry': "cache (user_cache_manager ?s1) ''u1'' = Some ?e"
    using entry uid by simp
  show ?thesis
    using on miss' sent entry' quiet total by simp
qed

text \<open>
  Claim C4 as stated fails for invocations that overlap. Two messages of the same new user
  arrive; the first invocation is suspended in its fetch when the second one starts, so
  the second finds no entry either, and each sends its own request: two requests within
  the TTL, where the same two invocations run one after the other send one.
\<close>

theorem overlapping_invocations_fetch_twice:
  "posts (snd (run_schedule \<lparr>api_url = ''http://host/'', api_timeout = 10\<rparr> [0, 1, 0, 1]
     [Fresh \<lparr>clock_get = 0, clock_set = 2, reply = PostResponse 200 (Some (JsonDict [(''impression'', PyInt 80)]))\<rparr> (Some \<lparr>message_base_info = [(''user_id'', PyStr ''u1'')]\<rparr>),
      Fresh \<lparr>clock_get = 1, clock_set = 3, reply = PostResponse 200 (Some (JsonDict [(''impression'', PyInt 80)]))\<rparr> (Some \<lparr>message_base_info = [(''user_id'', PyStr ''u1'')]\<rparr>)]
     (module_state0\<lparr>is_enabled := Some True\<rparr>))) =
     [(''http://host/get_info/u1'', 10), (''http://host/get_info/u1'', 10)]
   \<and> fst (run_schedule \<lparr>api_url = ''http://host/'', api_timeout = 10\<rparr> [0, 1, 0, 1]
     [Fresh \<lparr>clock_get = 0, clock_set = 2, reply = PostResponse 200 (Some (JsonDict [(''impression'', PyInt 80)]))\<rparr> (Some \<lparr>message_base_info = [(''user_id'', PyStr ''u1'')]\<rparr>),
      Fresh \<lparr>clock_get = 1, clock_set = 3, reply = PostResponse 200 (Some (JsonDict [(''impression'', PyInt 80)]))\<rparr> (Some \<lparr>message_base_info = [(''user_id'', PyStr ''u1'')]\<rparr>)]
     (module_state0\<lparr>is_enabled := Some True\<rparr>)) =
     [Finished (Inr (True, True, None, None, None)), Finished (Inr (True, True, None, None, None))]
   \<and> posts (snd (run_schedule \<lparr>api_url = ''http://host/'', api_timeout = 10\<rparr> [0, 0, 1, 1]
     [Fresh \<lparr>clock_get = 0, clock_set = 2, reply = PostResponse 200 (Some (JsonDict [(''impression'', PyInt 80)]))\<rparr> (Some \<lparr>message_base_info = [(''user_id'', PyStr ''u1'')]\<rparr>),
      Fresh \<lparr>clock_get = 1, clock_set = 3, reply = PostResponse 200 (Some (JsonDict [(''impression'', PyInt 80)]))\<rparr> (Some \<lparr>message_base_info = [(''user_id'', PyStr ''u1'')]\<rparr>)]
     (module_state0\<lparr>is_enabled := Some True\<rparr>))) =
     [(''http://host/get_info/u1'', 10)]"
  by (simp add: execute_until_await_def execute_after_await_def cache_get_def cache_set_def
      module_state0_def new_manager_def post_api_def post_api_try_def dict_get_def
      request_url_def rstrip_slash_def nth_Cons' Let_def)

text \<open>
  Claim C8, as the code has it. With the feature switched off (\<^verbatim>\<open>is_enabled\<close> false, or still
  \<^verbatim>\<open>None\<close>), the handler does nothing: no lookup, no request, no write, the state is returned
  as it was. What it returns is \<^verbatim>\<open>(False, True, None, None, None)\<close>: the first flag, the
  success flag, is \<^verbatim>\<open>False\<close>, and the second flag tells the host to carry on.
\<close>

theorem execute_disabled_noop:
  "is_enabled s \<noteq> Some True \<Longrightarrow>
   execute cfg env message s = (Inr (False, True, None, None, None), s)
   \<and> \<not> reports_success (fst (execute cfg env message s))"
  by (simp add: execute_def reports_success_def)

theorem execute_disabled_noop_witness:
  "is_enabled (module_state0\<lparr>is_enabled := Some False\<rparr>) \<noteq> Some True
   \<and> execute \<lparr>api_url = ''http://host/'', api_timeout = 10\<rparr>
       \<lparr>clock_get = 0, clock_set = 1, reply = PostTimeout\<rparr>
       (Some \<lparr>message_base_info = [(''user_id'', PyStr ''u1'')]\<rparr>)
       (module_state0\<lparr>is_enabled := Some False\<rparr>) =
     (Inr (False, True, None, None, None), module_state0\<lparr>is_enabled := Some False\<rparr>)"
proof -
  have off: "is_enabled (module_state0\<lparr>is_enabled := Some False\<rparr>) \<noteq> Some True"
    by simp
  show ?thesis
    using off execute_disabled_noop [OF off] by blast
qed

text \<open>
  Claim C8 as stated fails: the switched-off handler does not report success. Its first
  flag is \<^verbatim>\<open>False\<close>.
\<close>

theorem execute_disabled_reports_failure:
  "\<not> reports_success (fst (execute \<lparr>api_url = ''http://host/'', api_timeout = 10\<rparr>
       \<lparr>clock_get = 0, clock_set = 1, reply = PostTimeout\<rparr>
       (Some \<lparr>message_base_info = [(''user_id'', PyStr ''u1'')]\<rparr>)
       (module_state0\<lparr>is_enabled := Some False\<rparr>)))"
  by (simp add: execute_def reports_success_def)

subsection \<open>The prompt interceptor\<close>



text \<open>
  Claim C2. For a call with a target user: when that user has no entry, or only one past
  its TTL, the wrapper's outcome is the original's outcome, unchanged; and whenever the
  original returns \<open>(prompt, msgs)\<close>, the wrapper returns the same \<open>msgs\<close>.
\<close>

theorem patch_planner_transparent:
  assumes "chat_target_info args = Some target"
  shows "(cache (snd (f args m)) (user_id target) = None
          \<or> (\<exists>e. cache (snd (f args m)) (user_id target) = Some e
                \<and> now - stamp e > real_of_int (ttl (snd (f args m))))
          \<longrightarrow> fst (patch_planner (Some f) now args m) = fst (f args m))
       \<and> (\<forall>prompt msgs. fst (f args m) = Inr (prompt, msgs) \<longrightarrow>
            (\<exists>prompt'. fst (patch_planner (Some f) now args m) = Inr (prompt', msgs)))"
  using assms
  by (cases "f args m")
     (auto simp: patch_planner_def cache_get_def split: sum.splits option.splits prod.splits)

theorem patch_planner_transparent_witness:
  "chat_target_info \<lparr>chat_target_info = Some \<lparr>user_id = ''u1''\<rparr>, passed_on = ()\<rparr> =
     Some \<lparr>user_id = ''u1''\<rparr>
   \<and> cache (new_manager 3600) ''u1'' = None
   \<and> fst (patch_planner (Some (\<lambda>a m. (Inr (''Hello'', [] :: unit list), m))) 0
       \<lparr>chat_target_info = Some \<lparr>user_id = ''u1''\<rparr>, passed_on = ()\<rparr> (new_manager 3600)) =
     Inr (''Hello'', [])
   \<and> fst (patch_planner (Some (\<lambda>a m. (Inr (''Hello'', [] :: unit list), m))) 3601
       \<lparr>chat_target_info = Some \<lparr>user_id = ''u1''\<rparr>, passed_on = ()\<rparr>
       (cache_set 0 ''u1'' (PyInt 80) (PyStr ''friendly'') (new_manager 3600))) =
     Inr (''Hello'', [])"
proof -
  let ?m = "cache_set 0 ''u1'' (PyInt 80) (PyStr ''friendly'') (new_manager 3600)"
  let ?e = "\<lparr>user_info = \<lparr>userid = ''u1'', impression = PyInt 80, attitude = PyStr ''friendly''\<rparr>,
             stamp = 0\<rparr>"
  let ?args = "\<lparr>chat_target_info = Some \<lparr>user_id = ''u1''\<rparr>, passed_on = ()\<rparr>"
  let ?f = "\<lambda>(a :: unit planner_args) (m :: UserInfoCacheManager).
      (Inr (''Hello'', [] :: unit list) :: exn + string \<times> unit list, m)"
  have target: "chat_target_info ?args = Some \<lparr>user_id = ''u1''\<rparr>"
    by simp
  have absent: "cache (snd (?f ?args (new_manager 3600))) (user_id \<lparr>user_id = ''u1''\<rparr>) = None"
    by (simp add: new_manager_def)
  have stale: "cache (snd (?f ?args ?m)) (user_id \<lparr>user_id = ''u1''\<rparr>) = Some ?e
      \<and> (3601::real) - stamp ?e > real_of_int (ttl (snd (?f ?args ?m)))"
    by (simp add: cache_set_def new_manager_def)
  have 1: "fst (patch_planner (Some ?f) 0 ?args (new_manager 3600)) = fst (?f ?args (new_manager 3600))"
    using absent patch_planner_transparent [OF target, of ?f "new_manager 3600" 0] by blast
  have 2: "fst (patch_planner (Some ?f) 3601 ?args ?m) = fst (?f ?args ?m)"
    using stale patch_planner_transparent [OF target, of ?f ?m 3601] by blast
  show ?thesis
    using target absent 1 2 by simp
qed

text \<open>
  Claim C9. A call with \<^verbatim>\<open>chat_target_info = None\<close> never returns normally, whatever the
  original is: when the original returns, reading \<^verbatim>\<open>chat_target_info.user_id\<close> raises
  \<^verbatim>\<open>AttributeError\<close>, and otherwise the original's own exception propagates.
\<close>

theorem patch_planner_none_target:
  assumes "chat_target_info args = None"
  shows "(\<exists>e. fst (patch_planner orig now args m) = Inl e)
       \<and> (\<forall>f prompt msgs. orig = Some f \<and> fst (f args m) = Inr (prompt, msgs) \<longrightarrow>
            patch_planner orig now args m = (Inl AttributeError, snd (f args m)))"
  using assms
  by (cases orig)
     (auto simp: patch_planner_def split: sum.splits option.splits prod.splits)

theorem patch_planner_none_target_witness:
  "chat_target_info \<lparr>chat_target_info = None, passed_on = ()\<rparr> = None
   \<and> patch_planner (Some (\<lambda>a m. (Inr (''Hello'', [] :: unit list), m))) 0
       \<lparr>chat_target_info = None, passed_on = ()\<rparr>
       (cache_set 0 ''u1'' (PyInt 80) (PyStr ''friendly'') (new_manager 3600)) =
     (Inl AttributeError, cache_set 0 ''u1'' (PyInt 80) (PyStr ''friendly'') (new_manager 3600))"
proof -
  let ?m = "cache_set 0 ''u1'' (PyInt 80) (PyStr ''friendly'') (new_manager 3600)"
  let ?args = "\<lparr>chat_target_info = None, passed_on = ()\<rparr>"
  let ?f = "\<lambda>(a :: unit planner_args) (m :: UserInfoCacheManager).
      (Inr (''Hello'', [] :: unit list) :: exn + string \<times> unit list, m)"
  have none: "chat_target_info ?args = None"
    by simp
  have stub: "fst (?f ?args ?m) = Inr (''Hello'', [])" "snd (?f ?args ?m) = ?m"
    by simp_all
  show ?thesis
    using none stub patch_planner_none_target [OF none, of "Some ?f" 0 ?m]
    by simp
qed

lemma call_wrapper_of_itself:
  "original_func h = Some PatchPlanner \<Longrightarrow>
   call depth host h PatchPlanner now args m = (Inl RecursionError, m)"
proof (induction depth arbitrary: args m)
  case 0
  show ?case by (simp add: call.simps)
next
  case (Suc d)
  have "call (Suc d) host h PatchPlanner now args m =
      patch_planner (Some (\<lambda>a m'. call d host h PatchPlanner now a m')) now args m"
    using Suc.prems by (simp add: call.simps [of "Suc d"])
  also have "\<dots> = (Inl RecursionError, m)"
    using Suc.IH [OF Suc.prems] by (simp add: patch_planner_def)
  finally show ?case .
qed

lemma call_host: "call depth host h HostPlanner now = host"
  by (intro ext) (simp add: call.simps)

text \<open>
  Claim C7, as the code has it. \<^verbatim>\<open>patch\<close> captures whatever is bound at the hook point and
  binds the wrapper there. Run once from the start, it leaves the hook singly wrapped: the
  wrapper delegates to the host's own function. It has no guard against being run again:
  a second run captures the wrapper itself, and from then on every call at the hook point
  recurses until the interpreter's stack is exhausted, at any depth of stack.
\<close>

theorem patch_once_wraps_once:
  "build_planner_prompt (patch hooks0) = Some PatchPlanner
   \<and> original_func (patch hooks0) = Some HostPlanner
   \<and> build_prompt (Suc depth) host (patch hooks0) now args m = patch_planner (Some host) now args m
   \<and> build_planner_prompt (patch (patch hooks0)) = Some PatchPlanner
   \<and> original_func (patch (patch hooks0)) = Some PatchPlanner
   \<and> build_prompt depth host (patch (patch hooks0)) now args m = (Inl RecursionError, m)"
proof -
  have once: "build_planner_prompt (patch hooks0) = Some PatchPlanner"
    "original_func (patch hooks0) = Some HostPlanner"
    by (simp_all add: patch_def hooks0_def)
  have twice: "build_planner_prompt (patch (patch hooks0)) = Some PatchPlanner"
    "original_func (patch (patch hooks0)) = Some PatchPlanner"
    by (simp_all add: patch_def hooks0_def)
  have single: "build_prompt (Suc depth) host (patch hooks0) now args m =
      patch_planner (Some host) now args m"
    by (simp add: once build_prompt_def call.simps [of "Suc depth"] call_host)
  have looping: "build_prompt depth host (patch (patch hooks0)) now args m = (Inl RecursionError, m)"
    by (simp add: twice build_prompt_def call_wrapper_of_itself)
  show ?thesis
    using once twice single looping by blast
qed

text \<open>
  Claim C7 as stated fails: after a second \<^verbatim>\<open>patch\<close> the captured original is the wrapper,
  not the host's function, and a call at the hook point ends in \<^verbatim>\<open>RecursionError\<close>.
\<close>

theorem patch_twice_delegates_to_wrapper:
  "original_func (patch (patch hooks0)) = Some PatchPlanner
   \<and> original_func (patch (patch hooks0)) \<noteq> Some HostPlanner
   \<and> build_prompt 1000 (\<lambda>a m. (Inr (''Hello'', [] :: unit list), m)) (patch (patch hooks0)) 0
        \<lparr>chat_target_info = Some \<lparr>user_id = ''u1''\<rparr>, passed_on = ()\<rparr> (new_manager 3600) =
      (Inl RecursionError, new_manager 3600)"
proof -
  have twice: "build_planner_prompt (patch (patch hooks0)) = Some PatchPlanner"
    "original_func (patch (patch hooks0)) = Some PatchPlanner"
    by (simp_all add: patch_def hooks0_def)
  show ?thesis
    by (simp add: twice build_prompt_def call_wrapper_of_itself)
qed

end
